theory Spec2Isabelle
  imports Complex_Main "HOL-Library.Word"
begin

section \<open>Gutter width (CodeEditor.lineNumberAreaWidth)\<close>

text \<open>
  Python integers are unbounded, so they are \<open>int\<close>; \<open>//\<close> is floor division, which is
  \<open>div\<close> on \<open>int\<close>. The loop of \<open>lineNumberAreaWidth\<close>
  \<^verbatim>\<open>
    digits = 1
    max_val = max(1, self.blockCount())
    while max_val >= 10:
        max_val //= 10
        digits += 1
  \<close>
  is the tail-recursive function \<open>count_digits\<close> on the pair of loop variables.
\<close>

function count_digits :: "int \<Rightarrow> int \<Rightarrow> int" where
  "count_digits max_val digits =
     (if max_val \<ge> 10 then count_digits (max_val div 10) (digits + 1) else digits)"
  by pat_completeness auto
termination
  by (relation "measure (\<lambda>(max_val, digits). nat max_val)") auto

declare count_digits.simps [simp del]

text \<open>
  The font metrics of the editor are a parameter: \<open>horizontalAdvance c\<close> is what
  \<open>self.fontMetrics().horizontalAdvance(c)\<close> returns for the one-character string \<open>c\<close>.
\<close>

definition lineNumberAreaWidth :: "(char \<Rightarrow> int) \<Rightarrow> int \<Rightarrow> int" where
  "lineNumberAreaWidth horizontalAdvance blockCount =
     (let digits = count_digits (max 1 blockCount) 1;
          space = 24 + horizontalAdvance CHR ''9'' * digits
      in space)"

subsection \<open>Decimal representation (Python's \<open>str\<close> on integers)\<close>

definition digit_char :: "nat \<Rightarrow> char" where
  "digit_char d = ''0123456789'' ! d"

function str_nat :: "nat \<Rightarrow> string" where
  "str_nat n = (if n < 10 then [digit_char n] else str_nat (n div 10) @ [digit_char (n mod 10)])"
  by pat_completeness auto
termination
  by (relation "measure id") auto

declare str_nat.simps [simp del]

definition str_int :: "int \<Rightarrow> string" where
  "str_int i = (if i < 0 then CHR ''-'' # str_nat (nat (- i)) else str_nat (nat i))"



section \<open>The editor widget and the editor page\<close>

text \<open>
  A Python \<open>str\<close> is a sequence of Unicode code points; \<open>py_str\<close> is the list of their
  numbers. Bytes on disk are 8-bit words. The toolkit's \<open>QString\<close> is a sequence of
  UTF-16 code units, 16-bit words, and every offset into a document counts code units.
\<close>

type_synonym py_str = "nat list"
type_synonym byte = "8 word"
type_synonym qchar = "16 word"
type_synonym qstring = "qchar list"

text \<open>
  A \<open>QTextCursor\<close>: \<open>anchor\<close> and \<open>position\<close> are offsets into the document; the
  selection is what lies between them.
\<close>

record text_cursor =
  anchor :: nat
  position :: nat

datatype colour = QColor int int int int

text \<open>
  A \<open>QTextEdit.ExtraSelection\<close>: the background brush and the \<open>FullWidthSelection\<close>
  property of its format, and its cursor.
\<close>

record extra_selection =
  background :: colour
  fullWidthSelection :: bool
  cursor :: text_cursor

text \<open>
  The fields of \<open>CodeEditor\<close> (a \<open>QPlainTextEdit\<close>) that the methods below read or write.
  \<open>document\<close> is the text of the widget's document as the toolkit keeps it: one sequence
  of code units in which the paragraph separator U+2029 stands between two blocks.
\<close>

definition paragraph_separator :: qchar where
  "paragraph_separator = 0x2029"

record code_editor =
  document :: qstring
  textCursor :: text_cursor
  isReadOnly :: bool
  extraSelections :: "extra_selection list"
  pointSize :: int

text \<open>
  The exceptions the methods can meet: an \<open>OSError\<close> with its \<open>errno\<close> and file name
  (2 is \<open>FileNotFoundError\<close>, 13 is \<open>PermissionError\<close>), the two codec errors, and an
  \<open>AttributeError\<close> with the name of the attribute that is missing. All are subclasses
  of \<open>Exception\<close>.
\<close>

datatype py_exception =
    OSError int py_str
  | UnicodeDecodeError
  | UnicodeEncodeError
  | AttributeError string

text \<open>
  The notifications shown to the user. \<open>InfoSuccess msg\<close> is \<open>showSuccess(msg)\<close>,
  \<open>InfoError e\<close> is \<open>showError(str(e))\<close> for the exception \<open>e\<close>, and
  \<open>InfoWarning title content\<close> is \<open>InfoBar.warning(title, content, parent=self)\<close>.
\<close>

datatype info_bar =
    InfoSuccess py_str
  | InfoError py_exception
  | InfoWarning py_str py_str

record editor_interface =
  editor :: code_editor
  searchEdit :: py_str
  currentFile :: "py_str option"
  zoomLevel :: int
  lblZoom :: string
  infoBars :: "info_bar list"

text \<open>
  The state \<open>EditorInterface.__init__\<close> builds: an empty editor in Consolas 11 whose
  constructor has run \<open>highlightCurrentLine\<close> once, no current file, zoom 100.
\<close>

definition line_color :: "bool \<Rightarrow> colour" where
  "line_color is_dark = (if is_dark then QColor 255 255 255 10 else QColor 0 0 0 8)"

definition init_editor :: "bool \<Rightarrow> code_editor" where
  "init_editor is_dark =
     \<lparr>document = [], textCursor = \<lparr>anchor = 0, position = 0\<rparr>, isReadOnly = False,
      extraSelections =
        [\<lparr>background = line_color is_dark, fullWidthSelection = True,
          cursor = \<lparr>anchor = 0, position = 0\<rparr>\<rparr>],
      pointSize = 11\<rparr>"

definition init_interface :: "bool \<Rightarrow> editor_interface" where
  "init_interface is_dark =
     \<lparr>editor = init_editor is_dark, searchEdit = [], currentFile = None, zoomLevel = 100,
      lblZoom = ''100%'', infoBars = []\<rparr>"

section \<open>Strings between Python and the toolkit\<close>

text \<open>
  Every \<open>str\<close> handed to a toolkit method is converted to a \<open>QString\<close> by the binding, and
  every \<open>QString\<close> a method returns is converted back. A code point below U+10000 is one
  code unit, any other a pair of surrogates. The decoder puts a high surrogate and the low
  surrogate after it together again and drops a surrogate that stands alone.
\<close>

definition is_surrogate :: "nat \<Rightarrow> bool" where
  "is_surrogate c = (0xD800 \<le> c \<and> c \<le> 0xDFFF)"

definition utf16_encode_char :: "nat \<Rightarrow> qstring" where
  "utf16_encode_char cp =
     (if cp < 0x10000 then [of_nat cp]
      else [of_nat (0xD800 + (cp - 0x10000) div 1024), of_nat (0xDC00 + (cp - 0x10000) mod 1024)])"

definition utf16_encode :: "py_str \<Rightarrow> qstring" where
  "utf16_encode s = concat (map utf16_encode_char s)"

fun utf16_decode :: "qstring \<Rightarrow> py_str" where
  "utf16_decode [] = []"
| "utf16_decode [u] = (if is_surrogate (unat u) then [] else [unat u])"
| "utf16_decode (u # v # us) =
     (let a = unat u; b = unat v in
      if 0xD800 \<le> a \<and> a \<le> 0xDBFF \<and> 0xDC00 \<le> b \<and> b \<le> 0xDFFF
      then (0x10000 + (a - 0xD800) * 1024 + (b - 0xDC00)) # utf16_decode us
      else if is_surrogate a then utf16_decode (v # us)
      else a # utf16_decode (v # us))"

text \<open>
  The conversion to a \<open>QString\<close> does three things to the text beyond encoding it. A
  surrogate code point, which in a \<open>str\<close> always stands alone, is dropped. A leading
  U+FEFF is taken for a byte-order mark and consumed. A leading U+FFFE is taken for the
  mark of the opposite byte order when the \<open>str\<close> is stored in 16-bit units (it has no
  code point above U+FFFF): it is consumed and the two bytes of every code unit after it
  are swapped.
\<close>

definition swap_bytes :: "qchar \<Rightarrow> qchar" where
  "swap_bytes u = of_nat (unat u mod 256 * 256 + unat u div 256)"

definition to_qstring :: "py_str \<Rightarrow> qstring" where
  "to_qstring s =
     (case filter (\<lambda>c. \<not> is_surrogate c) s of
        [] \<Rightarrow> []
      | c # cs \<Rightarrow>
          if c = 0xFEFF then utf16_encode cs
          else if c = 0xFFFE \<and> list_all (\<lambda>x. x < 0x10000) cs
          then map swap_bytes (utf16_encode cs)
          else utf16_encode (c # cs))"

definition from_qstring :: "qstring \<Rightarrow> py_str" where
  "from_qstring q = utf16_decode q"

section \<open>Zoom level (EditorInterface.zoomIn, EditorInterface.zoomOut)\<close>

text \<open>
  \<open>QPlainTextEdit.zoomIn(r)\<close> adds \<open>r\<close> to the point size of the widget's font and
  leaves the font alone when \<open>r\<close> is 0 or the new size would not be positive;
  \<open>zoomOut(r)\<close> is \<open>zoomIn(-r)\<close>.
\<close>

definition editor_zoomIn :: "int \<Rightarrow> code_editor \<Rightarrow> code_editor" where
  "editor_zoomIn r e =
     (if r = 0 \<or> pointSize e + r \<le> 0 then e else e\<lparr>pointSize := pointSize e + r\<rparr>)"

definition editor_zoomOut :: "int \<Rightarrow> code_editor \<Rightarrow> code_editor" where
  "editor_zoomOut r e = editor_zoomIn (- r) e"

definition zoomIn :: "editor_interface \<Rightarrow> editor_interface" where
  "zoomIn s =
     (let s1 = s\<lparr>editor := editor_zoomIn 1 (editor s)\<rparr>;
          s2 = s1\<lparr>zoomLevel := zoomLevel s1 + 10\<rparr>
      in s2\<lparr>lblZoom := str_int (zoomLevel s2) @ ''%''\<rparr>)"

definition zoomOut :: "editor_interface \<Rightarrow> editor_interface" where
  "zoomOut s =
     (let s1 = s\<lparr>editor := editor_zoomOut 1 (editor s)\<rparr>;
          s2 = s1\<lparr>zoomLevel := max 10 (zoomLevel s1 - 10)\<rparr>
      in s2\<lparr>lblZoom := str_int (zoomLevel s2) @ ''%''\<rparr>)"

text \<open>The user's zoom actions, and the state after a sequence of them from the start.\<close>

datatype zoom_op = ZoomIn | ZoomOut

fun zoom_step :: "editor_interface \<Rightarrow> zoom_op \<Rightarrow> editor_interface" where
  "zoom_step s ZoomIn = zoomIn s"
| "zoom_step s ZoomOut = zoomOut s"

definition zoom_run :: "bool \<Rightarrow> zoom_op list \<Rightarrow> editor_interface" where
  "zoom_run is_dark ops = foldl zoom_step (init_interface is_dark) ops"

section \<open>Current-line highlight (CodeEditor.highlightCurrentLine)\<close>

text \<open>\<open>QTextCursor.clearSelection\<close> moves the anchor to the position.\<close>

definition clearSelection :: "text_cursor \<Rightarrow> text_cursor" where
  "clearSelection c = c\<lparr>anchor := position c\<rparr>"

text \<open>
  \<open>is_dark\<close> is the global test \<open>qconfig.theme == Theme.DARK\<close>. The method builds the list
  \<open>extraSelections\<close> and hands it to \<open>setExtraSelections\<close>, which replaces the widget's list.
\<close>

definition highlightCurrentLine :: "bool \<Rightarrow> code_editor \<Rightarrow> code_editor" where
  "highlightCurrentLine is_dark e =
     (let extraSelections0 = [];
          extraSelections1 =
            (if \<not> isReadOnly e then
               (let selection =
                      \<lparr>background = line_color is_dark, fullWidthSelection = True,
                       cursor = clearSelection (textCursor e)\<rparr>
                in extraSelections0 @ [selection])
             else extraSelections0)
      in e\<lparr>extraSelections := extraSelections1\<rparr>)"

text \<open>
  The block a document offset lies in is the number of paragraph separators before it.
  A full-width extra selection is painted over every block from the one holding the start
  of its cursor's selection to the one holding the end.
\<close>

definition block_of :: "qstring \<Rightarrow> nat \<Rightarrow> nat" where
  "block_of doc pos = length (filter (\<lambda>c. c = paragraph_separator) (take pos doc))"

definition selection_blocks :: "qstring \<Rightarrow> extra_selection \<Rightarrow> nat list" where
  "selection_blocks doc sel =
     [block_of doc (min (anchor (cursor sel)) (position (cursor sel))) ..<
      Suc (block_of doc (max (anchor (cursor sel)) (position (cursor sel))))]"

section \<open>Gutter painting (CodeEditor.lineNumberAreaPaintEvent)\<close>

text \<open>
  What the routine reads of a text block: \<open>block.isVisible()\<close> and the height of
  \<open>blockBoundingRect(block)\<close>. The document is the list of its blocks; a block is named by
  its index, \<open>block.next()\<close> is the next index, and a block is valid while the index is
  inside the list. The bounding rectangle of an invalid block is empty, of height 0.

  Tops, bottoms and heights are Python floats (binary64). A finite float is a real
  number, and comparing a float with an \<open>int\<close> is exact; what is not exact is the
  addition. So the values are \<open>real\<close>, and Python's float addition is the parameter
  \<open>fadd\<close> of the routine: \<open>fadd a b\<close> is what \<open>a + b\<close> evaluates to. Nothing is assumed
  about it.
\<close>

record text_block =
  isVisible :: bool
  height :: real

definition isValid :: "text_block list \<Rightarrow> nat \<Rightarrow> bool" where
  "isValid blocks block = (block < length blocks)"

definition blockBoundingRect_height :: "text_block list \<Rightarrow> nat \<Rightarrow> real" where
  "blockBoundingRect_height blocks block =
     (if isValid blocks block then height (blocks ! block) else 0)"

text \<open>A \<open>QRect\<close> with integer coordinates; its \<open>bottom()\<close> is \<open>y + height - 1\<close>.\<close>

record qrect =
  rect_x :: int
  rect_y :: int
  rect_width :: int
  rect_height :: int

definition rect_top :: "qrect \<Rightarrow> int" where
  "rect_top r = rect_y r"

definition rect_bottom :: "qrect \<Rightarrow> int" where
  "rect_bottom r = rect_y r + rect_height r - 1"

text \<open>Python's \<open>int\<close> on a float truncates towards zero.\<close>

definition py_int :: "real \<Rightarrow> int" where
  "py_int r = (if 0 \<le> r then \<lfloor>r\<rfloor> else \<lceil>r\<rceil>)"

text \<open>
  One \<open>painter.drawText(x, y, w, h, Qt.AlignRight, number)\<close>. \<open>drawn_block\<close> is not an
  argument of the call: it records which block the loop variable \<open>block\<close> held.
\<close>

record draw_text =
  drawn_block :: nat
  draw_x :: int
  draw_y :: int
  draw_w :: int
  draw_h :: int
  number :: string

datatype paint_command =
    FillRect qrect colour
  | SetPen colour
  | SetFont string int
  | DrawText draw_text

text \<open>
  The \<open>while\<close> loop on its variables \<open>block\<close>, \<open>blockNumber\<close>, \<open>top\<close> and \<open>bottom\<close>
  (\<open>top_y\<close> and \<open>bottom_y\<close> here);
  \<open>area_width\<close> is \<open>self.lineNumberArea.width()\<close> and \<open>fm_height\<close> is
  \<open>self.fontMetrics().height()\<close>.
\<close>

function paint_loop ::
  "(real \<Rightarrow> real \<Rightarrow> real) \<Rightarrow> text_block list \<Rightarrow> qrect \<Rightarrow> int \<Rightarrow> int \<Rightarrow> nat \<Rightarrow> int \<Rightarrow> real \<Rightarrow> real
    \<Rightarrow> draw_text list"
where
  "paint_loop fadd blocks rect area_width fm_height block blockNumber top_y bottom_y =
     (if isValid blocks block \<and> top_y \<le> real_of_int (rect_bottom rect) then
        (if isVisible (blocks ! block) \<and> bottom_y \<ge> real_of_int (rect_top rect) then
           [\<lparr>drawn_block = block, draw_x = 0, draw_y = py_int top_y,
             draw_w = area_width - 8, draw_h = fm_height,
             number = str_int (blockNumber + 1)\<rparr>]
         else [])
        @ paint_loop fadd blocks rect area_width fm_height (block + 1) (blockNumber + 1)
            bottom_y (fadd bottom_y (blockBoundingRect_height blocks (block + 1)))
      else [])"
  by pat_completeness auto
termination
  by (relation "measure (\<lambda>(fadd, blocks, rect, area_width, fm_height, block, rest).
        length blocks - block)") (auto simp: isValid_def)

declare paint_loop.simps [simp del]

text \<open>
  \<open>first\<close> is \<open>self.firstVisibleBlock()\<close> and \<open>top0\<close> the top of its bounding geometry
  translated by the content offset.
\<close>

definition lineNumberAreaPaintEvent ::
  "(real \<Rightarrow> real \<Rightarrow> real) \<Rightarrow> bool \<Rightarrow> text_block list \<Rightarrow> nat \<Rightarrow> real \<Rightarrow> qrect \<Rightarrow> int \<Rightarrow> int
    \<Rightarrow> paint_command list"
where
  "lineNumberAreaPaintEvent fadd is_dark blocks first top0 rect area_width fm_height =
     (let bg_color = (if is_dark then QColor 32 32 32 255 else QColor 248 248 248 255);
          text_color = (if is_dark then QColor 100 100 100 255 else QColor 160 160 160 255);
          block = first;
          blockNumber = int block;
          top_y = top0;
          bottom_y = fadd top_y (blockBoundingRect_height blocks block)
      in [FillRect rect bg_color, SetPen text_color, SetFont ''Consolas'' 10]
         @ map DrawText
             (paint_loop fadd blocks rect area_width fm_height block blockNumber top_y
                bottom_y))"

text \<open>
  The edges of a block as the routine knows them: the values its variables \<open>top\<close> and
  \<open>bottom\<close> hold while \<open>block\<close> is that block. \<open>top\<close> starts at \<open>top0\<close> for the first
  visible block, and every iteration replaces it by the float sum of itself and the height
  of the block it leaves; \<open>loop_top fadd blocks first top0 k\<close> is its value after \<open>k\<close>
  iterations.
\<close>

fun loop_top :: "(real \<Rightarrow> real \<Rightarrow> real) \<Rightarrow> text_block list \<Rightarrow> nat \<Rightarrow> real \<Rightarrow> nat \<Rightarrow> real" where
  "loop_top fadd blocks first top0 0 = top0"
| "loop_top fadd blocks first top0 (Suc k) =
     fadd (loop_top fadd blocks first top0 k) (blockBoundingRect_height blocks (first + k))"

definition block_top ::
  "(real \<Rightarrow> real \<Rightarrow> real) \<Rightarrow> text_block list \<Rightarrow> nat \<Rightarrow> real \<Rightarrow> nat \<Rightarrow> real"
where
  "block_top fadd blocks first top0 i = loop_top fadd blocks first top0 (i - first)"

definition block_bottom ::
  "(real \<Rightarrow> real \<Rightarrow> real) \<Rightarrow> text_block list \<Rightarrow> nat \<Rightarrow> real \<Rightarrow> nat \<Rightarrow> real"
where
  "block_bottom fadd blocks first top0 i =
     fadd (block_top fadd blocks first top0 i) (blockBoundingRect_height blocks i)"

section \<open>Search (EditorInterface.searchNext, EditorInterface.searchPrev)\<close>

text \<open>
  \<open>QPlainTextEdit.find(exp, options)\<close> as the toolkit documents it. Without
  \<open>FindCaseSensitively\<close> the comparison is case-insensitive: \<open>fc\<close> is the toolkit's case
  folding of a code unit, a parameter here. A match lies inside one block (it never
  contains a paragraph separator), and a no-break space of the document matches a space.
  \<open>match_at fc expr hay\<close>: the search string \<open>expr\<close> matches at the start of \<open>hay\<close>.
\<close>

fun match_at :: "(qchar \<Rightarrow> qchar) \<Rightarrow> qstring \<Rightarrow> qstring \<Rightarrow> bool" where
  "match_at fc [] hay = True"
| "match_at fc (n # ns) [] = False"
| "match_at fc (n # ns) (h # hs) =
     (h \<noteq> paragraph_separator \<and> fc n = fc (if h = 0xA0 then 0x20 else h) \<and> match_at fc ns hs)"

text \<open>
  Forwards the search starts at the end of the selection and takes the first match at or
  after it; backwards it starts one before the start of the selection and takes the last
  match that begins at or before that offset (none when the selection starts at 0).
\<close>

definition find_forward :: "(qchar \<Rightarrow> qchar) \<Rightarrow> qstring \<Rightarrow> qstring \<Rightarrow> nat \<Rightarrow> nat option" where
  "find_forward fc expr doc from_pos =
     List.find (\<lambda>i. match_at fc expr (drop i doc)) [from_pos ..< Suc (length doc)]"

definition find_backward :: "(qchar \<Rightarrow> qchar) \<Rightarrow> qstring \<Rightarrow> qstring \<Rightarrow> nat \<Rightarrow> nat option" where
  "find_backward fc expr doc from_pos =
     List.find (\<lambda>i. match_at fc expr (drop i doc)) (rev [0 ..< min from_pos (Suc (length doc))])"

definition selectionStart :: "text_cursor \<Rightarrow> nat" where
  "selectionStart c = min (anchor c) (position c)"

definition selectionEnd :: "text_cursor \<Rightarrow> nat" where
  "selectionEnd c = max (anchor c) (position c)"

text \<open>
  \<open>find\<close> receives the search string as a \<open>QString\<close> and returns whether it found a match;
  when it did, the match becomes the selection of the text cursor, and otherwise the cursor
  stays. An empty search string is never found.
\<close>

definition editor_find ::
  "(qchar \<Rightarrow> qchar) \<Rightarrow> py_str \<Rightarrow> bool \<Rightarrow> code_editor \<Rightarrow> bool \<times> code_editor"
where
  "editor_find fc expr backward e =
     (let q = to_qstring expr in
      if q = [] then (False, e)
      else
        (case (if backward
               then find_backward fc q (document e) (selectionStart (textCursor e))
               else find_forward fc q (document e) (selectionEnd (textCursor e))) of
           None \<Rightarrow> (False, e)
         | Some i \<Rightarrow> (True, e\<lparr>textCursor := \<lparr>anchor = i, position = i + length q\<rparr>\<rparr>)))"

datatype move_operation = Start | End

fun moveCursor :: "move_operation \<Rightarrow> code_editor \<Rightarrow> code_editor" where
  "moveCursor Start e = e\<lparr>textCursor := \<lparr>anchor = 0, position = 0\<rparr>\<rparr>"
| "moveCursor End e =
     e\<lparr>textCursor := \<lparr>anchor = length (document e), position = length (document e)\<rparr>\<rparr>"

text \<open>
  Two expressions of the methods read an enum member as an attribute.

  \<open>QTextEdit.FindBackward\<close>: the class \<open>QTextEdit\<close> has no attribute of that name (the
  flag is a member of \<open>QTextDocument\<close>), so evaluating the expression raises
  \<open>AttributeError\<close>; it never yields a flag.

  \<open>self.editor.textCursor().Start\<close> and \<open>.End\<close>: a member of
  \<open>QTextCursor.MoveOperation\<close> read through an instance of \<open>QTextCursor\<close>. Whether that
  resolves depends on the version of the binding; \<open>enum_via_instance\<close> says whether it
  does, and where it does not the expression raises \<open>AttributeError\<close>.
\<close>

definition QTextEdit_FindBackward :: "py_exception + bool" where
  "QTextEdit_FindBackward = Inl (AttributeError ''FindBackward'')"

definition textCursor_member :: "bool \<Rightarrow> move_operation \<Rightarrow> py_exception + move_operation" where
  "textCursor_member enum_via_instance operation =
     (if enum_via_instance then Inr operation
      else Inl (AttributeError (case operation of Start \<Rightarrow> ''Start'' | End \<Rightarrow> ''End'')))"

text \<open>
  The warning of \<open>searchNext\<close>: title \<open>"\<close>U+691C U+7D22\<open>"\<close>, content the search string
  in single quotes followed by a space and the fixed not-found sentence.
\<close>

definition not_found_title :: py_str where
  "not_found_title = [0x691C, 0x7D22]"

definition not_found_content :: "py_str \<Rightarrow> py_str" where
  "not_found_content txt =
     [0x27] @ txt @ [0x27, 0x20, 0x306F, 0x898B, 0x3064, 0x304B, 0x308A, 0x307E, 0x305B,
                     0x3093, 0x3067, 0x3057, 0x305F, 0x3002]"

text \<open>
  Neither method has a \<open>try\<close>: an exception raised inside leaves the method. The result is
  the state the method left behind and the exception that left it, if any.
\<close>

definition searchNext ::
  "(qchar \<Rightarrow> qchar) \<Rightarrow> bool \<Rightarrow> editor_interface \<Rightarrow> editor_interface \<times> py_exception option"
where
  "searchNext fc enum_via_instance s =
     (let txt = searchEdit s in
      if txt = [] then (s, None)
      else
        (let (found, e1) = editor_find fc txt False (editor s) in
         if \<not> found then
           (case textCursor_member enum_via_instance Start of
              Inl exn \<Rightarrow> (s\<lparr>editor := e1\<rparr>, Some exn)
            | Inr operation \<Rightarrow>
                (let e2 = moveCursor operation e1;
                     (found2, e3) = editor_find fc txt False e2
                 in if \<not> found2
                    then (s\<lparr>editor := e3,
                            infoBars := infoBars s
                              @ [InfoWarning not_found_title (not_found_content txt)]\<rparr>, None)
                    else (s\<lparr>editor := e3\<rparr>, None)))
         else (s\<lparr>editor := e1\<rparr>, None)))"

definition searchPrev ::
  "(qchar \<Rightarrow> qchar) \<Rightarrow> bool \<Rightarrow> editor_interface \<Rightarrow> editor_interface \<times> py_exception option"
where
  "searchPrev fc enum_via_instance s =
     (let txt = searchEdit s in
      if txt = [] then (s, None)
      else
        (case QTextEdit_FindBackward of
           Inl exn \<Rightarrow> (s, Some exn)
         | Inr backward \<Rightarrow>
             (let (found, e1) = editor_find fc txt backward (editor s) in
              if \<not> found then
                (case textCursor_member enum_via_instance End of
                   Inl exn \<Rightarrow> (s\<lparr>editor := e1\<rparr>, Some exn)
                 | Inr operation \<Rightarrow>
                     (let e2 = moveCursor operation e1 in
                      case QTextEdit_FindBackward of
                        Inl exn \<Rightarrow> (s\<lparr>editor := e2\<rparr>, Some exn)
                      | Inr backward2 \<Rightarrow>
                          (let (found2, e3) = editor_find fc txt backward2 e2
                           in (s\<lparr>editor := e3\<rparr>, None))))
              else (s\<lparr>editor := e1\<rparr>, None))))"

text \<open>A search string occurs in a document when it matches at some offset.\<close>

definition occurs :: "(qchar \<Rightarrow> qchar) \<Rightarrow> py_str \<Rightarrow> qstring \<Rightarrow> bool" where
  "occurs fc expr doc = (find_forward fc (to_qstring expr) doc 0 \<noteq> None)"

section \<open>Files (EditorInterface.openFile, EditorInterface.saveFile)\<close>

subsection \<open>The text layer of Python's \<open>open\<close>\<close>

text \<open>
  \<open>open(path, 'r', encoding='utf-8')\<close> and \<open>open(path, 'w', encoding='utf-8')\<close> give text
  files with the default error handler \<open>strict\<close> and the default \<open>newline=None\<close>.

  The strict UTF-8 decoder accepts exactly the well-formed sequences: no overlong forms,
  no surrogates, nothing above U+10FFFF; anything else raises \<open>UnicodeDecodeError\<close>
  (\<open>None\<close> here).
\<close>

definition is_continuation :: "nat \<Rightarrow> bool" where
  "is_continuation b = (0x80 \<le> b \<and> b \<le> 0xBF)"

fun utf8_decode :: "byte list \<Rightarrow> py_str option" where
  "utf8_decode [] = Some []"
| "utf8_decode (b0 # bs) =
     (let a = unat b0 in
      if a < 0x80 then map_option ((#) a) (utf8_decode bs)
      else if 0xC2 \<le> a \<and> a \<le> 0xDF then
        (case bs of
           b1 # r \<Rightarrow>
             (let b = unat b1; cp = (a - 0xC0) * 64 + (b - 0x80) in
              if is_continuation b then map_option ((#) cp) (utf8_decode r) else None)
         | _ \<Rightarrow> None)
      else if 0xE0 \<le> a \<and> a \<le> 0xEF then
        (case bs of
           b1 # b2 # r \<Rightarrow>
             (let b = unat b1; c = unat b2;
                  cp = (a - 0xE0) * 4096 + (b - 0x80) * 64 + (c - 0x80) in
              if is_continuation b \<and> is_continuation c \<and> 0x800 \<le> cp
                 \<and> \<not> (0xD800 \<le> cp \<and> cp \<le> 0xDFFF)
              then map_option ((#) cp) (utf8_decode r) else None)
         | _ \<Rightarrow> None)
      else if 0xF0 \<le> a \<and> a \<le> 0xF4 then
        (case bs of
           b1 # b2 # b3 # r \<Rightarrow>
             (let b = unat b1; c = unat b2; d = unat b3;
                  cp = (a - 0xF0) * 262144 + (b - 0x80) * 4096 + (c - 0x80) * 64 + (d - 0x80) in
              if is_continuation b \<and> is_continuation c \<and> is_continuation d
                 \<and> 0x10000 \<le> cp \<and> cp \<le> 0x10FFFF
              then map_option ((#) cp) (utf8_decode r) else None)
         | _ \<Rightarrow> None)
      else None)"

text \<open>
  The strict encoder refuses surrogates with \<open>UnicodeEncodeError\<close> (a \<open>str\<close> can hold a
  lone surrogate); a \<open>str\<close> holds no code point above U+10FFFF.
\<close>

definition utf8_encode_char :: "nat \<Rightarrow> byte list option" where
  "utf8_encode_char cp =
     (if cp < 0x80 then Some [of_nat cp]
      else if cp < 0x800 then Some [of_nat (0xC0 + cp div 64), of_nat (0x80 + cp mod 64)]
      else if 0xD800 \<le> cp \<and> cp \<le> 0xDFFF then None
      else if cp < 0x10000 then
        Some [of_nat (0xE0 + cp div 4096), of_nat (0x80 + cp div 64 mod 64),
              of_nat (0x80 + cp mod 64)]
      else if cp \<le> 0x10FFFF then
        Some [of_nat (0xF0 + cp div 262144), of_nat (0x80 + cp div 4096 mod 64),
              of_nat (0x80 + cp div 64 mod 64), of_nat (0x80 + cp mod 64)]
      else None)"

fun utf8_encode :: "py_str \<Rightarrow> byte list option" where
  "utf8_encode [] = Some []"
| "utf8_encode (cp # cps) =
     (case utf8_encode_char cp of
        None \<Rightarrow> None
      | Some bs \<Rightarrow> map_option ((@) bs) (utf8_encode cps))"

text \<open>
  With \<open>newline=None\<close> reading is in universal-newlines mode: \<open>"\r\n"\<close> and a lone
  \<open>"\r"\<close> both arrive as \<open>"\n"\<close>. The flag says that the previous character was a
  carriage return, whose line feed is then dropped. Writing replaces every \<open>"\n"\<close> by
  \<open>os.linesep\<close>.
\<close>

fun newlines_in :: "bool \<Rightarrow> py_str \<Rightarrow> py_str" where
  "newlines_in after_cr [] = []"
| "newlines_in after_cr (c # cs) =
     (if c = 0x0D then 0x0A # newlines_in True cs
      else if c = 0x0A \<and> after_cr then newlines_in False cs
      else c # newlines_in False cs)"

definition newlines_out :: "py_str \<Rightarrow> py_str \<Rightarrow> py_str" where
  "newlines_out linesep s = concat (map (\<lambda>c. if c = 0x0A then linesep else [c]) s)"

subsection \<open>The file system\<close>

text \<open>
  What the two methods can see of the outside world: the bytes of the files, the errors
  the operating system answers with (an \<open>errno\<close>) when a path is opened, read or written,
  the platform's \<open>os.linesep\<close>, and a log of the calls of \<open>open\<close>.
\<close>

datatype open_mode = ReadMode | WriteMode

datatype io_call = Open py_str open_mode

record world =
  files :: "py_str \<Rightarrow> byte list option"
  open_error :: "open_mode \<Rightarrow> py_str \<Rightarrow> int option"
  read_error :: "py_str \<Rightarrow> int option"
  write_error :: "py_str \<Rightarrow> int option"
  linesep :: py_str
  io_log :: "io_call list"

text \<open>
  \<open>with open(path, 'r', encoding='utf-8') as f: ... f.read()\<close>: the text of the file,
  or the exception raised on the way. A missing file is \<open>errno\<close> 2.
\<close>

definition read_text :: "world \<Rightarrow> py_str \<Rightarrow> world \<times> (py_exception + py_str)" where
  "read_text w path =
     (let w1 = w\<lparr>io_log := io_log w @ [Open path ReadMode]\<rparr> in
      case open_error w ReadMode path of
        Some n \<Rightarrow> (w1, Inl (OSError n path))
      | None \<Rightarrow>
          (case files w path of
             None \<Rightarrow> (w1, Inl (OSError 2 path))
           | Some bytes \<Rightarrow>
               (case read_error w path of
                  Some n \<Rightarrow> (w1, Inl (OSError n path))
                | None \<Rightarrow>
                    (case utf8_decode bytes of
                       None \<Rightarrow> (w1, Inl UnicodeDecodeError)
                     | Some s \<Rightarrow> (w1, Inr (newlines_in False s))))))"

text \<open>
  \<open>with open(path, 'w', encoding='utf-8') as f: f.write(s)\<close>: opening creates the file or
  truncates it; an exception raised after that leaves it empty.
\<close>

definition write_text :: "world \<Rightarrow> py_str \<Rightarrow> py_str \<Rightarrow> world \<times> (py_exception + unit)" where
  "write_text w path s =
     (let w1 = w\<lparr>io_log := io_log w @ [Open path WriteMode]\<rparr> in
      case open_error w WriteMode path of
        Some n \<Rightarrow> (w1, Inl (OSError n path))
      | None \<Rightarrow>
          (let w2 = w1\<lparr>files := (files w1)(path \<mapsto> [])\<rparr> in
           case utf8_encode (newlines_out (linesep w) s) of
             None \<Rightarrow> (w2, Inl UnicodeEncodeError)
           | Some bytes \<Rightarrow>
               (case write_error w path of
                  Some n \<Rightarrow> (w2, Inl (OSError n path))
                | None \<Rightarrow> (w2\<lparr>files := (files w2)(path \<mapsto> bytes)\<rparr>, Inr ()))))"

subsection \<open>The text of the widget\<close>

text \<open>
  \<open>setPlainText\<close> replaces the document by the inserted text and puts the cursor at its
  start. Inserting text starts a new block at every line feed, carriage return (a carriage
  return and the line feed after it count once), paragraph separator, and at the two
  frame markers U+FDD0 and U+FDD1. \<open>toPlainText\<close> gives the document back with every
  paragraph separator, line separator U+2028 and frame marker as a line feed, and every
  no-break space U+00A0 as a space.
\<close>

fun insertText :: "bool \<Rightarrow> qstring \<Rightarrow> qstring" where
  "insertText after_cr [] = []"
| "insertText after_cr (c # cs) =
     (if c = 0x0A \<and> after_cr then insertText False cs
      else if c = 0x0D then paragraph_separator # insertText True cs
      else if c = 0x0A \<or> c = paragraph_separator \<or> c = 0xFDD0 \<or> c = 0xFDD1
      then paragraph_separator # insertText False cs
      else c # insertText False cs)"

definition setPlainText :: "py_str \<Rightarrow> code_editor \<Rightarrow> code_editor" where
  "setPlainText s e =
     e\<lparr>document := insertText False (to_qstring s),
       textCursor := \<lparr>anchor = 0, position = 0\<rparr>\<rparr>"

definition toPlainText :: "code_editor \<Rightarrow> py_str" where
  "toPlainText e =
     from_qstring
       (map (\<lambda>c. if c = 0xFDD0 \<or> c = 0xFDD1 \<or> c = paragraph_separator \<or> c = 0x2028 then 0x0A
                else if c = 0xA0 then 0x20 else c)
          (document e))"



subsection \<open>The two methods\<close>

definition showSuccess :: "py_str \<Rightarrow> editor_interface \<Rightarrow> editor_interface" where
  "showSuccess msg s = s\<lparr>infoBars := infoBars s @ [InfoSuccess msg]\<rparr>"

definition showError :: "py_exception \<Rightarrow> editor_interface \<Rightarrow> editor_interface" where
  "showError e s = s\<lparr>infoBars := infoBars s @ [InfoError e]\<rparr>"

text \<open>The fixed parts of the two success messages, each ending in a colon and a space.\<close>

definition opened_prefix :: py_str where
  "opened_prefix = [0x958B, 0x304D, 0x307E, 0x3057, 0x305F, 0x3A, 0x20]"

definition saved_prefix :: py_str where
  "saved_prefix = [0x4FDD, 0x5B58, 0x3057, 0x307E, 0x3057, 0x305F, 0x3A, 0x20]"

text \<open>
  \<open>path\<close> is what \<open>QFileDialog.getOpenFileName\<close> returned, the empty string when the user
  cancelled. The \<open>try\<close> block reads the whole file before \<open>setPlainText\<close> is called, then
  sets \<open>currentFile\<close>; the \<open>except Exception\<close> clause is the \<open>Inl\<close> branch.
\<close>

definition openFile :: "py_str \<Rightarrow> world \<times> editor_interface \<Rightarrow> world \<times> editor_interface" where
  "openFile path ws =
     (let (w, s) = ws in
      if path \<noteq> [] then
        (case read_text w path of
           (w1, Inr content) \<Rightarrow>
             (let s1 = s\<lparr>editor := setPlainText content (editor s)\<rparr>;
                  s2 = s1\<lparr>currentFile := Some path\<rparr>
              in (w1, showSuccess (opened_prefix @ path) s2))
         | (w1, Inl e) \<Rightarrow> (w1, showError e s))
      else (w, s))"

text \<open>
  The \<open>try\<close> block of \<open>saveFile\<close>, on the state in which \<open>currentFile\<close> is \<open>target\<close>.
\<close>

definition save_to :: "py_str \<Rightarrow> world \<times> editor_interface \<Rightarrow> world \<times> editor_interface" where
  "save_to target ws =
     (let (w, s) = ws in
      case write_text w target (toPlainText (editor s)) of
        (w1, Inr _) \<Rightarrow> (w1, showSuccess (saved_prefix @ target) s)
      | (w1, Inl e) \<Rightarrow> (w1, showError e s))"

text \<open>
  \<open>path\<close> is what \<open>QFileDialog.getSaveFileName\<close> would return; the dialog is shown only
  when \<open>currentFile\<close> is \<open>None\<close> or empty.
\<close>

definition saveFile :: "py_str \<Rightarrow> world \<times> editor_interface \<Rightarrow> world \<times> editor_interface" where
  "saveFile path ws =
     (let (w, s) = ws in
      case currentFile s of
        Some current \<Rightarrow>
          (if current \<noteq> [] then save_to current (w, s)
           else if path = [] then (w, s)
           else save_to path (w, s\<lparr>currentFile := Some path\<rparr>))
      | None \<Rightarrow>
          (if path = [] then (w, s)
           else save_to path (w, s\<lparr>currentFile := Some path\<rparr>)))"

section \<open>Example inputs\<close>

text \<open>
  Six blocks of height 17, the third one hidden, and a repaint rectangle that covers the
  rows 0 to 29 of a gutter 38 pixels wide. The tops and heights used with them are small
  integers, whose float sums are exact: there \<open>fadd\<close> is \<open>(+)\<close>.
\<close>

definition demo_blocks :: "text_block list" where
  "demo_blocks =
     [\<lparr>isVisible = True, height = 17\<rparr>, \<lparr>isVisible = True, height = 17\<rparr>,
      \<lparr>isVisible = False, height = 0\<rparr>, \<lparr>isVisible = True, height = 17\<rparr>,
      \<lparr>isVisible = True, height = 17\<rparr>, \<lparr>isVisible = True, height = 17\<rparr>]"

definition demo_rect :: qrect where
  "demo_rect = \<lparr>rect_x = 0, rect_y = 0, rect_width = 38, rect_height = 30\<rparr>"

text \<open>
  Three blocks of heights 1, \<open>2\<^sup>-\<^sup>6\<^sup>0\<close> and 5 under a repaint rectangle whose bottom is 1,
  and what binary64 addition gives on them: 1 plus \<open>2\<^sup>-\<^sup>6\<^sup>0\<close> rounds to 1, and the other
  sums of the example are exact.
\<close>

definition rounding_add :: "real \<Rightarrow> real \<Rightarrow> real" where
  "rounding_add a b = (if a = 1 \<and> b = 1 / 2 ^ 60 then 1 else a + b)"

definition thin_blocks :: "text_block list" where
  "thin_blocks =
     [\<lparr>isVisible = True, height = 1\<rparr>, \<lparr>isVisible = True, height = 1 / 2 ^ 60\<rparr>,
      \<lparr>isVisible = True, height = 5\<rparr>]"

definition thin_rect :: qrect where
  "thin_rect = \<lparr>rect_x = 0, rect_y = 0, rect_width = 38, rect_height = 2\<rparr>"

text \<open>
  An editor holding the three lines "ab", "cd" and "e", with a selection that runs from
  the first line into the second.
\<close>

definition demo_editor :: code_editor where
  "demo_editor =
     \<lparr>document = [97, 98, 0x2029, 99, 100, 0x2029, 101], textCursor = \<lparr>anchor = 1, position = 4\<rparr>,
      isReadOnly = False, extraSelections = [], pointSize = 11\<rparr>"




text \<open>A case folding that maps the ASCII capitals to their small letters.\<close>

definition ascii_fold :: "qchar \<Rightarrow> qchar" where
  "ascii_fold c = (if 65 \<le> c \<and> c \<le> 90 then c + 32 else c)"

text \<open>The editor page with the document "abc" and the search string "x".\<close>

definition demo_search :: editor_interface where
  "demo_search =
     (init_interface False)
       \<lparr>editor := (init_editor False)\<lparr>document := [97, 98, 99]\<rparr>, searchEdit := [120]\<rparr>"

text \<open>
  A file system with four files: "a" holds \<open>a\<close>, CR, \<open>b\<close>; "b" holds the single byte FF,
  which is not UTF-8; "c" holds \<open>h\<close>, LF and the two bytes of U+00E9; "f" holds the three
  bytes of U+FEFF and then \<open>a\<close>. The path "d" may not be opened (\<open>errno\<close> 13), and every
  other path is missing. \<open>ls\<close> is \<open>os.linesep\<close>.
\<close>

definition demo_world :: "py_str \<Rightarrow> world" where
  "demo_world ls =
     \<lparr>files = (\<lambda>p. if p = [97] then Some [0x61, 0x0D, 0x62]
                   else if p = [98] then Some [0xFF]
                   else if p = [99] then Some [0x68, 0x0A, 0xC3, 0xA9]
                   else if p = [102] then Some [0xEF, 0xBB, 0xBF, 0x61]
                   else None),
      open_error = (\<lambda>m p. if p = [100] then Some 13 else None),
      read_error = (\<lambda>p. None),
      write_error = (\<lambda>p. None),
      linesep = ls,
      io_log = []\<rparr>"

section \<open>Theorems\<close>

subsection \<open>Digit counting\<close>

lemma count_digits_small: "m < 10 \<Longrightarrow> count_digits m d = d"
  by (simp add: count_digits.simps)

lemma length_str_nat_pos: "0 < length (str_nat n)"
  by (subst str_nat.simps) simp

lemma count_digits_length:
  "0 \<le> m \<Longrightarrow> count_digits m d = d - 1 + int (length (str_nat (nat m)))"
proof (induction m d rule: count_digits.induct)
  case (1 m d)
  show ?case
  proof (cases "m \<ge> 10")
    case True
    have step: "count_digits m d = count_digits (m div 10) (d + 1)"
      using True by (subst count_digits.simps) simp
    have "nat m div 10 = nat (m div 10)"
      using True by (simp add: nat_div_distrib)
    moreover have "\<not> nat m < 10" using True by simp
    ultimately have "length (str_nat (nat m)) = length (str_nat (nat (m div 10))) + 1"
      by (subst str_nat.simps) simp
    moreover have "count_digits (m div 10) (d + 1) = d + int (length (str_nat (nat (m div 10))))"
      using "1.IH" [OF True] True by simp
    ultimately show ?thesis using step by simp
  next
    case False
    then have "nat m < 10" by simp
    then have "length (str_nat (nat m)) = 1"
      by (subst str_nat.simps) simp
    then show ?thesis using False by (simp add: count_digits_small)
  qed
qed

lemma str_nat_bounds:
  "0 < n \<Longrightarrow> 10 ^ (length (str_nat n) - 1) \<le> n \<and> n < 10 ^ length (str_nat n)"
proof (induction n rule: str_nat.induct)
  case (1 n)
  show ?case
  proof (cases "n < 10")
    case True
    then have "length (str_nat n) = 1" by (subst str_nat.simps) simp
    then show ?thesis using True "1.prems" by simp
  next
    case False
    then have len: "length (str_nat n) = length (str_nat (n div 10)) + 1"
      by (subst str_nat.simps) simp
    have pos: "0 < n div 10" using False by simp
    have ih: "10 ^ (length (str_nat (n div 10)) - 1) \<le> n div 10"
        "n div 10 < 10 ^ length (str_nat (n div 10))"
      using "1.IH" [OF False pos] by simp_all
    have lp: "0 < length (str_nat (n div 10))" by (rule length_str_nat_pos)
    have "10 * 10 ^ (length (str_nat (n div 10)) - 1) \<le> 10 * (n div 10)"
      using ih(1) by simp
    also have "\<dots> \<le> n" by simp
    finally have lo: "10 ^ length (str_nat (n div 10)) \<le> n"
      using lp by (metis One_nat_def Suc_pred power_Suc)
    have "n div 10 + 1 \<le> 10 ^ length (str_nat (n div 10))" using ih(2) by simp
    then have "10 * (n div 10 + 1) \<le> 10 * 10 ^ length (str_nat (n div 10))"
      by (rule mult_le_mono2)
    moreover have "n < 10 * (n div 10 + 1)" by presburger
    ultimately have hi: "n < 10 ^ (length (str_nat (n div 10)) + 1)" by simp
    show ?thesis using lo hi len by simp
  qed
qed

lemma str_nat_length_mono: "m \<le> n \<Longrightarrow> length (str_nat m) \<le> length (str_nat n)"
proof (cases "m = 0")
  case True
  then have "length (str_nat m) = 1" by (subst str_nat.simps) simp
  then show ?thesis using length_str_nat_pos [of n] by (simp add: Suc_le_eq)
next
  case False
  assume mn: "m \<le> n"
  show ?thesis
  proof (rule ccontr)
    assume "\<not> length (str_nat m) \<le> length (str_nat n)"
    then have lt: "length (str_nat n) \<le> length (str_nat m) - 1" by simp
    have "n < 10 ^ length (str_nat n)" using str_nat_bounds [of n] False mn by simp
    also have "\<dots> \<le> (10::nat) ^ (length (str_nat m) - 1)"
      using lt by (simp add: power_increasing)
    also have "\<dots> \<le> m" using str_nat_bounds [of m] False by simp
    finally show False using mn by simp
  qed
qed



lemma width_eq: "lineNumberAreaWidth fm N = 24 + fm CHR ''9'' * int (length (str_int (max 1 N)))"
  by (simp add: lineNumberAreaWidth_def Let_def count_digits_length str_int_def)





lemma width_mono:
  assumes "0 \<le> fm CHR ''9''" and "1 \<le> N" and "N \<le> M"
  shows "lineNumberAreaWidth fm N \<le> lineNumberAreaWidth fm M"
proof -
  have "length (str_nat (nat N)) \<le> length (str_nat (nat M))"
    using assms by (intro str_nat_length_mono) simp
  then have "int (length (str_int (max 1 N))) \<le> int (length (str_int (max 1 M)))"
    using assms by (simp add: str_int_def max_def)
  then show ?thesis
    using assms(1) by (simp add: width_eq mult_left_mono)
qed

lemma digits_step:
  assumes "1 \<le> N" and "length (str_int (N + 1)) \<noteq> length (str_int N)"
  shows "N + 1 = 10 ^ length (str_int N)"
proof -
  define n where "n = nat N"
  have n: "0 < n" "N = int n" using assms(1) by (simp_all add: n_def)
  have s: "str_int N = str_nat n" "str_int (N + 1) = str_nat (Suc n)"
    using n by (simp_all add: str_int_def nat_add_distrib)
  have "length (str_nat n) \<le> length (str_nat (Suc n))"
    by (rule str_nat_length_mono) simp
  then have lt: "length (str_nat n) \<le> length (str_nat (Suc n)) - 1"
    using assms(2) s by simp
  have "(10::nat) ^ length (str_nat n) \<le> 10 ^ (length (str_nat (Suc n)) - 1)"
    using lt by (simp add: power_increasing)
  also have "\<dots> \<le> Suc n" using str_nat_bounds [of "Suc n"] by simp
  finally have "10 ^ length (str_nat n) \<le> Suc n" .
  moreover have "Suc n \<le> 10 ^ length (str_nat n)"
    using str_nat_bounds [of n] n(1) by simp
  ultimately have "Suc n = 10 ^ length (str_nat n)" by simp
  then have "int (Suc n) = 10 ^ length (str_nat n)" by (metis of_nat_numeral of_nat_power)
  then show ?thesis using n s by simp
qed

text \<open>
  Claim C3. For block counts \<open>N \<ge> 1\<close> (and a glyph advance that is not negative) the gutter
  width is monotone non-decreasing in \<open>N\<close>; it keeps its value from \<open>N\<close> to \<open>N + 1\<close>
  whenever the two have the same number of decimal digits; and it can only differ when
  \<open>N + 1\<close> is a power of ten (9 to 10, 99 to 100, and so on).
\<close>

theorem gutter_width_monotone:
  assumes "0 \<le> fm CHR ''9''" and "1 \<le> N"
  shows "(\<forall>M. N \<le> M \<longrightarrow> lineNumberAreaWidth fm N \<le> lineNumberAreaWidth fm M)
       \<and> (length (str_int (N + 1)) = length (str_int N) \<longrightarrow>
            lineNumberAreaWidth fm (N + 1) = lineNumberAreaWidth fm N)
       \<and> (lineNumberAreaWidth fm (N + 1) \<noteq> lineNumberAreaWidth fm N \<longrightarrow>
            (\<exists>k\<ge>1. N + 1 = 10 ^ k))"
proof (intro conjI allI impI)
  fix M assume "N \<le> M"
  then show "lineNumberAreaWidth fm N \<le> lineNumberAreaWidth fm M"
    using assms by (intro width_mono)
next
  assume "length (str_int (N + 1)) = length (str_int N)"
  then show "lineNumberAreaWidth fm (N + 1) = lineNumberAreaWidth fm N"
    using assms(2) by (simp add: width_eq max_def)
next
  assume d: "lineNumberAreaWidth fm (N + 1) \<noteq> lineNumberAreaWidth fm N"
  have "length (str_int (N + 1)) \<noteq> length (str_int N)"
  proof
    assume "length (str_int (N + 1)) = length (str_int N)"
    then have "lineNumberAreaWidth fm (N + 1) = lineNumberAreaWidth fm N"
      using assms(2) by (simp add: width_eq max_def)
    then show False using d by simp
  qed
  then have "N + 1 = 10 ^ length (str_int N)"
    using assms(2) by (intro digits_step)
  moreover have "1 \<le> length (str_int N)"
    using assms(2) length_str_nat_pos [of "nat N"] by (simp add: str_int_def Suc_le_eq)
  ultimately show "\<exists>k\<ge>1. N + 1 = 10 ^ k" by blast
qed

theorem gutter_width_monotone_witness:
  "(0::int) \<le> (\<lambda>c. 7) CHR ''9'' \<and> (1::int) \<le> 9
   \<and> lineNumberAreaWidth (\<lambda>c. 7) 9 \<le> lineNumberAreaWidth (\<lambda>c. 7) 10
   \<and> lineNumberAreaWidth (\<lambda>c. 7) (9 + 1) \<noteq> lineNumberAreaWidth (\<lambda>c. 7) 9
   \<and> (\<exists>k. 1 \<le> k \<and> (9::int) + 1 = 10 ^ k)"
  using gutter_width_monotone [of "\<lambda>c. 7" 9]
  by (simp add: lineNumberAreaWidth_def count_digits.simps)

lemma zoom_step_inv:
  "10 \<le> zoomLevel s \<and> zoomLevel s mod 10 = 0 \<and> lblZoom s = str_int (zoomLevel s) @ ''%'' \<Longrightarrow>
   10 \<le> zoomLevel (zoom_step s x) \<and> zoomLevel (zoom_step s x) mod 10 = 0
   \<and> lblZoom (zoom_step s x) = str_int (zoomLevel (zoom_step s x)) @ ''%''"
  by (cases x) (auto simp: zoomIn_def zoomOut_def Let_def max_def)

lemma zoom_foldl_inv:
  "10 \<le> zoomLevel s \<and> zoomLevel s mod 10 = 0 \<and> lblZoom s = str_int (zoomLevel s) @ ''%'' \<Longrightarrow>
   10 \<le> zoomLevel (foldl zoom_step s ops) \<and> zoomLevel (foldl zoom_step s ops) mod 10 = 0
   \<and> lblZoom (foldl zoom_step s ops) = str_int (zoomLevel (foldl zoom_step s ops)) @ ''%''"
proof (induction ops arbitrary: s)
  case Nil
  then show ?case by simp
next
  case (Cons x xs)
  show ?case using Cons.IH [OF zoom_step_inv [OF Cons.prems]] by simp
qed

lemma init_label: "str_int 100 @ ''%'' = ''100%''"
  by (simp add: str_int_def str_nat.simps digit_char_def)

text \<open>
  Claim C10. In every state reached from the initial state by a sequence of \<open>zoomIn\<close> and
  \<open>zoomOut\<close>, \<open>zoomLevel\<close> is at least 10 and a multiple of 10, and the label shows it;
  \<open>zoomIn\<close> adds 10 with no upper bound and \<open>zoomOut\<close> subtracts 10 but not below 10.
\<close>

theorem zoomLevel_invariant:
  "10 \<le> zoomLevel (zoom_run is_dark ops) \<and> zoomLevel (zoom_run is_dark ops) mod 10 = 0
   \<and> lblZoom (zoom_run is_dark ops) = str_int (zoomLevel (zoom_run is_dark ops)) @ ''%''
   \<and> zoomLevel (zoomIn s) = zoomLevel s + 10
   \<and> zoomLevel (zoomOut s) = max 10 (zoomLevel s - 10)"
proof -
  have "10 \<le> zoomLevel (init_interface is_dark) \<and> zoomLevel (init_interface is_dark) mod 10 = 0
     \<and> lblZoom (init_interface is_dark) = str_int (zoomLevel (init_interface is_dark)) @ ''%''"
    by (simp add: init_interface_def init_label)
  from zoom_foldl_inv [OF this]
  show ?thesis by (simp add: zoom_run_def zoomIn_def zoomOut_def Let_def)
qed

theorem zoomLevel_invariant_witness:
  "zoomLevel (zoom_run False [ZoomOut, ZoomOut, ZoomOut, ZoomOut, ZoomOut, ZoomOut, ZoomOut,
      ZoomOut, ZoomOut, ZoomOut, ZoomOut, ZoomIn]) = 20
   \<and> lblZoom (zoom_run False [ZoomOut, ZoomOut, ZoomOut, ZoomOut, ZoomOut, ZoomOut, ZoomOut,
      ZoomOut, ZoomOut, ZoomOut, ZoomOut, ZoomIn]) = ''20%''"
  using zoomLevel_invariant [of False "[ZoomOut, ZoomOut, ZoomOut, ZoomOut, ZoomOut, ZoomOut,
      ZoomOut, ZoomOut, ZoomOut, ZoomOut, ZoomOut, ZoomIn]"]
  by (simp add: zoom_run_def zoomIn_def zoomOut_def init_interface_def Let_def
      str_int_def str_nat.simps digit_char_def)

subsection \<open>Gutter painting and current-line highlight\<close>

lemma loop_top_shift:
  "loop_top fadd blocks b t (Suc k) =
   loop_top fadd blocks (Suc b) (fadd t (blockBoundingRect_height blocks b)) k"
  by (induction k) simp_all

lemma loop_top_next:
  assumes "b < j"
  shows "loop_top fadd blocks b t (j - b) =
         loop_top fadd blocks (b + 1) (fadd t (blockBoundingRect_height blocks b)) (j - (b + 1))"
proof -
  have "j - b = Suc (j - (b + 1))" using assms by simp
  then show ?thesis using loop_top_shift [of fadd blocks b t "j - (b + 1)"] by simp
qed

lemma paint_loop_sound:
  "d \<in> set (paint_loop fadd blocks rect aw fh b bn t bo) \<Longrightarrow>
   bo = fadd t (blockBoundingRect_height blocks b) \<Longrightarrow>
   b \<le> drawn_block d \<and> drawn_block d < length blocks
   \<and> number d = str_int (bn + int (drawn_block d - b) + 1)
   \<and> isVisible (blocks ! drawn_block d)
   \<and> draw_y d = py_int (loop_top fadd blocks b t (drawn_block d - b))
   \<and> real_of_int (rect_top rect)
        \<le> fadd (loop_top fadd blocks b t (drawn_block d - b))
             (blockBoundingRect_height blocks (drawn_block d))
   \<and> (\<forall>j. b \<le> j \<and> j \<le> drawn_block d \<longrightarrow>
          loop_top fadd blocks b t (j - b) \<le> real_of_int (rect_bottom rect))"
proof (induction fadd blocks rect aw fh b bn t bo rule: paint_loop.induct)
  case (1 fadd blocks rect aw fh b bn t bo)
  let ?H = "blockBoundingRect_height blocks"
  let ?T = "loop_top fadd blocks"
  have go: "isValid blocks b" "t \<le> real_of_int (rect_bottom rect)"
    using "1.prems"(1) by (subst (asm) paint_loop.simps, simp split: if_splits)+
  have mem: "d \<in> set ((if isVisible (blocks ! b) \<and> bo \<ge> real_of_int (rect_top rect) then
           [\<lparr>drawn_block = b, draw_x = 0, draw_y = py_int t,
             draw_w = aw - 8, draw_h = fh, number = str_int (bn + 1)\<rparr>]
         else [])
        @ paint_loop fadd blocks rect aw fh (b + 1) (bn + 1) bo (fadd bo (?H (b + 1))))"
    using "1.prems"(1) go by (subst (asm) paint_loop.simps) simp
  then consider
      (here) "isVisible (blocks ! b)" "bo \<ge> real_of_int (rect_top rect)"
        "d = \<lparr>drawn_block = b, draw_x = 0, draw_y = py_int t,
             draw_w = aw - 8, draw_h = fh, number = str_int (bn + 1)\<rparr>"
    | (later) "d \<in> set (paint_loop fadd blocks rect aw fh (b + 1) (bn + 1) bo
                 (fadd bo (?H (b + 1))))"
    by (auto split: if_splits)
  then show ?case
  proof cases
    case here
    have "\<forall>j. b \<le> j \<and> j \<le> b \<longrightarrow> ?T b t (j - b) \<le> real_of_int (rect_bottom rect)"
      using go(2) by (auto simp: le_antisym)
    then show ?thesis
      using here go "1.prems"(2) by (simp add: isValid_def)
  next
    case later
    have ih: "b + 1 \<le> drawn_block d \<and> drawn_block d < length blocks
      \<and> number d = str_int (bn + 1 + int (drawn_block d - (b + 1)) + 1)
      \<and> isVisible (blocks ! drawn_block d)
      \<and> draw_y d = py_int (?T (b + 1) bo (drawn_block d - (b + 1)))
      \<and> real_of_int (rect_top rect)
           \<le> fadd (?T (b + 1) bo (drawn_block d - (b + 1))) (?H (drawn_block d))
      \<and> (\<forall>j. b + 1 \<le> j \<and> j \<le> drawn_block d \<longrightarrow>
             ?T (b + 1) bo (j - (b + 1)) \<le> real_of_int (rect_bottom rect))"
    proof (rule "1.IH")
      show "isValid blocks b \<and> t \<le> real_of_int (rect_bottom rect)" using go by simp
      show "d \<in> set (paint_loop fadd blocks rect aw fh (b + 1) (bn + 1) bo
                 (fadd bo (?H (b + 1))))"
        by (rule later)
      show "fadd bo (?H (b + 1)) = fadd bo (?H (b + 1))" by (rule refl)
    qed
    then have lt: "b < drawn_block d" by simp
    have top_eq: "?T b t (j - b) = ?T (b + 1) bo (j - (b + 1))" if "b < j" for j
      using loop_top_next [OF that, of fadd blocks t] "1.prems"(2) by simp
    have num: "bn + 1 + int (drawn_block d - (b + 1)) + 1 = bn + int (drawn_block d - b) + 1"
      using lt by simp
    have all: "?T b t (j - b) \<le> real_of_int (rect_bottom rect)"
      if "b \<le> j \<and> j \<le> drawn_block d" for j
    proof (cases "j = b")
      case True
      then show ?thesis using go(2) by simp
    next
      case False
      then have "b < j" using that by simp
      then show ?thesis using ih that top_eq [of j] by simp
    qed
    have c1: "b \<le> drawn_block d \<and> drawn_block d < length blocks
        \<and> isVisible (blocks ! drawn_block d)"
      using ih by simp
    have c2: "number d = str_int (bn + int (drawn_block d - b) + 1)"
      using ih num by metis
    have c3: "draw_y d = py_int (?T b t (drawn_block d - b))"
      using ih top_eq [OF lt] by simp
    have c4: "real_of_int (rect_top rect)
        \<le> fadd (?T b t (drawn_block d - b)) (?H (drawn_block d))"
      using ih top_eq [OF lt] by simp
    show ?thesis
      using c1 c2 c3 c4 all by blast
  qed
qed

lemma demo_paint:
  "lineNumberAreaPaintEvent (+) False demo_blocks 1 (-5) demo_rect 38 17 =
     [FillRect demo_rect (QColor 248 248 248 255), SetPen (QColor 160 160 160 255),
      SetFont ''Consolas'' 10,
      DrawText \<lparr>drawn_block = 1, draw_x = 0, draw_y = -5, draw_w = 30, draw_h = 17,
                number = ''2''\<rparr>,
      DrawText \<lparr>drawn_block = 3, draw_x = 0, draw_y = 12, draw_w = 30, draw_h = 17,
                number = ''4''\<rparr>,
      DrawText \<lparr>drawn_block = 4, draw_x = 0, draw_y = 29, draw_w = 30, draw_h = 17,
                number = ''5''\<rparr>]"
  by (simp add: lineNumberAreaPaintEvent_def demo_blocks_def demo_rect_def paint_loop.simps
      isValid_def blockBoundingRect_height_def rect_top_def rect_bottom_def py_int_def
      str_int_def str_nat.simps digit_char_def)

lemma paint_event_draws:
  "DrawText d \<in> set (lineNumberAreaPaintEvent fadd is_dark blocks first top0 rect aw fh) \<Longrightarrow>
   d \<in> set (paint_loop fadd blocks rect aw fh first (int first) top0
           (fadd top0 (blockBoundingRect_height blocks first)))"
  by (auto simp: lineNumberAreaPaintEvent_def Let_def)

text \<open>
  Claim C5. Every number the gutter paint routine draws is the decimal string of the
  0-based index of the block it is drawn for, plus one: the loop keeps \<open>blockNumber\<close>
  equal to the index of \<open>block\<close> in every iteration.
\<close>

theorem gutter_number_is_block_index_plus_one:
  assumes "DrawText d
    \<in> set (lineNumberAreaPaintEvent fadd is_dark blocks first top0 rect aw fh)"
  shows "number d = str_int (int (drawn_block d) + 1)
       \<and> first \<le> drawn_block d \<and> drawn_block d < length blocks"
proof -
  have "first \<le> drawn_block d \<and> drawn_block d < length blocks
      \<and> number d = str_int (int first + int (drawn_block d - first) + 1)"
    using paint_loop_sound [OF paint_event_draws [OF assms] refl] by blast
  moreover have "first \<le> drawn_block d \<Longrightarrow>
      int first + int (drawn_block d - first) + 1 = int (drawn_block d) + 1"
    by simp
  ultimately show ?thesis by metis
qed

theorem gutter_number_is_block_index_plus_one_witness:
  "DrawText \<lparr>drawn_block = 3, draw_x = 0, draw_y = 12, draw_w = 30, draw_h = 17,
             number = ''4''\<rparr>
     \<in> set (lineNumberAreaPaintEvent (+) False demo_blocks 1 (-5) demo_rect 38 17)
   \<and> str_int (int 3 + 1) = ''4''"
proof -
  have m: "DrawText \<lparr>drawn_block = 3, draw_x = 0, draw_y = 12, draw_w = 30, draw_h = 17,
             number = ''4''\<rparr>
     \<in> set (lineNumberAreaPaintEvent (+) False demo_blocks 1 (-5) demo_rect 38 17)"
    by (subst demo_paint) simp
  from gutter_number_is_block_index_plus_one [OF m] m show ?thesis by simp
qed

text \<open>
  Claim C8. The paint routine starts at the first visible block and draws a number only
  for a block that is visible, whose bottom edge is at or below the top of the repaint
  rectangle and whose top edge is at or above its bottom; the loop has stopped before any
  block that follows one whose top edge is below the bottom of the rectangle. The edges
  are the values of the routine's own \<open>top\<close> and \<open>bottom\<close> for the block, whatever the
  float addition rounds to.
\<close>

theorem gutter_draws_only_inside_region:
  assumes "DrawText d
    \<in> set (lineNumberAreaPaintEvent fadd is_dark blocks first top0 rect aw fh)"
  shows "first \<le> drawn_block d \<and> drawn_block d < length blocks
       \<and> isVisible (blocks ! drawn_block d)
       \<and> real_of_int (rect_top rect) \<le> block_bottom fadd blocks first top0 (drawn_block d)
       \<and> block_top fadd blocks first top0 (drawn_block d) \<le> real_of_int (rect_bottom rect)
       \<and> (\<forall>j. first \<le> j \<and> j \<le> drawn_block d \<longrightarrow>
              block_top fadd blocks first top0 j \<le> real_of_int (rect_bottom rect))
       \<and> draw_y d = py_int (block_top fadd blocks first top0 (drawn_block d))"
  using paint_loop_sound [OF paint_event_draws [OF assms] refl]
  unfolding block_top_def block_bottom_def by blast

theorem gutter_draws_only_inside_region_witness:
  "DrawText \<lparr>drawn_block = 4, draw_x = 0, draw_y = 29, draw_w = 30, draw_h = 17,
             number = ''5''\<rparr>
     \<in> set (lineNumberAreaPaintEvent (+) False demo_blocks 1 (-5) demo_rect 38 17)
   \<and> block_top (+) demo_blocks 1 (-5) 4 \<le> real_of_int (rect_bottom demo_rect)
   \<and> isVisible (demo_blocks ! 4)"
proof -
  have m: "DrawText \<lparr>drawn_block = 4, draw_x = 0, draw_y = 29, draw_w = 30, draw_h = 17,
             number = ''5''\<rparr>
     \<in> set (lineNumberAreaPaintEvent (+) False demo_blocks 1 (-5) demo_rect 38 17)"
    by (subst demo_paint) simp
  from gutter_draws_only_inside_region [OF m] m show ?thesis by simp
qed

text \<open>
  With an addition that rounds, the routine draws the third of the thin blocks: its own
  \<open>top\<close> for that block is 1, which is not below the bottom of the rectangle, although
  the exact sum of the heights above it is larger than 1.
\<close>

lemma rounded_sum_is_drawn:
  "map drawn_block
     (paint_loop rounding_add thin_blocks thin_rect 38 17 0 0 0
        (rounding_add 0 (blockBoundingRect_height thin_blocks 0))) = [0, 1, 2]
   \<and> block_top rounding_add thin_blocks 0 0 2 = 1
   \<and> block_top (+) thin_blocks 0 0 2 = 1 + 1 / 2 ^ 60"
  by (simp add: thin_blocks_def thin_rect_def paint_loop.simps rounding_add_def
      isValid_def blockBoundingRect_height_def rect_top_def rect_bottom_def
      block_top_def numeral_2_eq_2)

lemma clearSelection_eq:
  "clearSelection c = \<lparr>anchor = position c, position = position c\<rparr>"
  by (cases c) (simp add: clearSelection_def)

lemma block_of_same:
  "selection_blocks doc \<lparr>background = c, fullWidthSelection = f,
     cursor = \<lparr>anchor = p, position = p\<rparr>\<rparr> = [block_of doc p]"
  by (simp add: selection_blocks_def)

text \<open>
  Claim C6. After \<open>highlightCurrentLine\<close> the extra selections are empty when the editor
  is read-only, and otherwise exactly one full-width selection with the theme's background
  whose cursor is the caret with the selection cleared; such a selection covers exactly
  the one block that holds the caret.
\<close>

theorem highlightCurrentLine_single_block:
  "extraSelections (highlightCurrentLine is_dark e) =
     (if isReadOnly e then []
      else [\<lparr>background = line_color is_dark, fullWidthSelection = True,
             cursor = \<lparr>anchor = position (textCursor e), position = position (textCursor e)\<rparr>\<rparr>])
   \<and> (\<forall>sel \<in> set (extraSelections (highlightCurrentLine is_dark e)).
         selection_blocks (document e) sel = [block_of (document e) (position (textCursor e))])"
  by (simp add: highlightCurrentLine_def Let_def clearSelection_eq block_of_same)

theorem highlightCurrentLine_single_block_witness:
  "extraSelections (highlightCurrentLine False demo_editor) =
     [\<lparr>background = QColor 0 0 0 8, fullWidthSelection = True,
       cursor = \<lparr>anchor = 4, position = 4\<rparr>\<rparr>]
   \<and> selection_blocks (document demo_editor)
        \<lparr>background = QColor 0 0 0 8, fullWidthSelection = True,
         cursor = \<lparr>anchor = 4, position = 4\<rparr>\<rparr> = [1]
   \<and> extraSelections (highlightCurrentLine False (demo_editor\<lparr>isReadOnly := True\<rparr>)) = []"
  using highlightCurrentLine_single_block [of False demo_editor]
    highlightCurrentLine_single_block [of False "demo_editor\<lparr>isReadOnly := True\<rparr>"]
  by (simp add: demo_editor_def line_color_def block_of_def paragraph_separator_def)

subsection \<open>Search\<close>

lemma absent_find_forward:
  "find_forward fc q doc 0 = None \<Longrightarrow> find_forward fc q doc from_pos = None"
  by (auto simp: find_forward_def find_None_iff)

lemma absent_find_backward:
  "find_forward fc q doc 0 = None \<Longrightarrow> find_backward fc q doc from_pos = None"
  by (fastforce simp: find_forward_def find_backward_def find_None_iff less_Suc_eq)

lemma absent_editor_find:
  "\<not> occurs fc expr (document e) \<Longrightarrow> editor_find fc expr backward e = (False, e)"
  by (simp add: editor_find_def occurs_def Let_def absent_find_forward absent_find_backward)

lemma searchPrev_raises:
  "searchEdit s \<noteq> [] \<Longrightarrow>
   searchPrev fc enum_via_instance s = (s, Some (AttributeError ''FindBackward''))"
  by (simp add: searchPrev_def QTextEdit_FindBackward_def)

lemma searchPrev_infoBars: "infoBars (fst (searchPrev fc enum_via_instance s)) = infoBars s"
  by (simp add: searchPrev_def QTextEdit_FindBackward_def Let_def)

lemma searchNext_absent_raises:
  assumes "searchEdit s \<noteq> []" and "\<not> occurs fc (searchEdit s) (document (editor s))"
  shows "searchNext fc False s = (s, Some (AttributeError ''Start''))"
proof -
  have "editor_find fc (searchEdit s) False (editor s) = (False, editor s)"
    using assms(2) by (rule absent_editor_find)
  then show ?thesis
    using assms(1) by (simp add: searchNext_def Let_def textCursor_member_def)
qed

lemma searchNext_absent_wraps:
  assumes "searchEdit s \<noteq> []" and "\<not> occurs fc (searchEdit s) (document (editor s))"
  shows "searchNext fc True s =
           (s\<lparr>editor := moveCursor Start (editor s),
              infoBars := infoBars s
                @ [InfoWarning not_found_title (not_found_content (searchEdit s))]\<rparr>, None)"
proof -
  have 1: "editor_find fc (searchEdit s) False (editor s) = (False, editor s)"
    using assms(2) by (rule absent_editor_find)
  have "\<not> occurs fc (searchEdit s) (document (moveCursor Start (editor s)))"
    using assms(2) by simp
  then have 2: "editor_find fc (searchEdit s) False (moveCursor Start (editor s))
      = (False, moveCursor Start (editor s))"
    by (rule absent_editor_find)
  show ?thesis
    using assms(1) 1 2 by (simp add: searchNext_def Let_def textCursor_member_def)
qed

text \<open>
  Claim C2. A search for a non-empty string that does not occur in the document should
  wrap around once and then report not-found. Evaluated on the document "abc" and the
  search string "x": \<open>searchPrev\<close> raises \<open>AttributeError\<close> at \<open>QTextEdit.FindBackward\<close>
  before it searches at all, and \<open>searchNext\<close>, where the binding does not resolve
  \<open>textCursor().Start\<close>, raises \<open>AttributeError\<close> after the first failed search. Either
  way the cursor has not moved, nothing was retried and no notification is shown. (Where
  the binding resolves \<open>textCursor().Start\<close>, \<open>searchNext\<close> does wrap and warn:
  \<open>searchNext_absent_wraps\<close>; \<open>searchPrev\<close> shows no notification in any state:
  \<open>searchPrev_infoBars\<close>.)
\<close>

theorem search_absent_raises_and_reports_nothing:
  "searchEdit demo_search = [120]
   \<and> occurs ascii_fold [120] (document (editor demo_search)) = False
   \<and> infoBars demo_search = []
   \<and> textCursor (editor demo_search) = \<lparr>anchor = 0, position = 0\<rparr>
   \<and> searchPrev ascii_fold False demo_search
       = (demo_search, Some (AttributeError ''FindBackward''))
   \<and> searchPrev ascii_fold True demo_search
       = (demo_search, Some (AttributeError ''FindBackward''))
   \<and> searchNext ascii_fold False demo_search = (demo_search, Some (AttributeError ''Start''))"
proof -
  have a: "occurs ascii_fold [120] (document (editor demo_search)) = False"
    by (simp add: occurs_def find_forward_def demo_search_def init_editor_def
        init_interface_def ascii_fold_def paragraph_separator_def upt_rec
        to_qstring_def utf16_encode_def utf16_encode_char_def is_surrogate_def)
  have e: "searchEdit demo_search = [120]" "searchEdit demo_search \<noteq> []"
    by (simp_all add: demo_search_def init_interface_def)
  have n: "\<not> occurs ascii_fold (searchEdit demo_search) (document (editor demo_search))"
    using a e by simp
  have i: "infoBars demo_search = []"
    "textCursor (editor demo_search) = \<lparr>anchor = 0, position = 0\<rparr>"
    by (simp_all add: demo_search_def init_interface_def init_editor_def)
  show ?thesis
    using a e(1) i searchPrev_raises [OF e(2)] searchNext_absent_raises [OF e(2) n]
    by simp
qed

subsection \<open>UTF-8, newlines and the widget's text\<close>
























subsection \<open>Opening and saving files\<close>

lemma fst_read_text:
  "fst (read_text w p) = w\<lparr>io_log := io_log w @ [Open p ReadMode]\<rparr>"
  by (simp add: read_text_def Let_def split: option.splits)

lemma openFile_Inl:
  assumes "p \<noteq> []" and "snd (read_text w p) = Inl e"
  shows "openFile p (w, s) = (w\<lparr>io_log := io_log w @ [Open p ReadMode]\<rparr>, showError e s)"
proof -
  have "read_text w p = (w\<lparr>io_log := io_log w @ [Open p ReadMode]\<rparr>, Inl e)"
    using fst_read_text [of w p] assms(2) by (cases "read_text w p") simp
  then show ?thesis using assms(1) by (simp add: openFile_def)
qed

lemma openFile_Inr:
  assumes "p \<noteq> []" and "snd (read_text w p) = Inr content"
  shows "openFile p (w, s) =
           (w\<lparr>io_log := io_log w @ [Open p ReadMode]\<rparr>,
            showSuccess (opened_prefix @ p)
              (s\<lparr>editor := setPlainText content (editor s), currentFile := Some p\<rparr>))"
proof -
  have "read_text w p = (w\<lparr>io_log := io_log w @ [Open p ReadMode]\<rparr>, Inr content)"
    using fst_read_text [of w p] assms(2) by (cases "read_text w p") simp
  then show ?thesis using assms(1) by (simp add: openFile_def Let_def)
qed

lemma openFile_cancel: "openFile [] (w, s) = (w, s)"
  by (simp add: openFile_def)

lemma io_log_write_text:
  "io_log (fst (write_text w p t)) = io_log w @ [Open p WriteMode]"
  by (simp add: write_text_def Let_def split: option.splits)

lemma save_to_Inl:
  assumes "snd (write_text w p (toPlainText (editor s))) = Inl e"
  shows "save_to p (w, s) = (fst (write_text w p (toPlainText (editor s))), showError e s)"
  using assms by (cases "write_text w p (toPlainText (editor s))") (simp add: save_to_def)

lemma save_to_Inr:
  assumes "snd (write_text w p (toPlainText (editor s))) = Inr u"
  shows "save_to p (w, s) =
           (fst (write_text w p (toPlainText (editor s))), showSuccess (saved_prefix @ p) s)"
  using assms by (cases "write_text w p (toPlainText (editor s))") (simp add: save_to_def)

lemma saveFile_current:
  "currentFile s = Some p \<Longrightarrow> p \<noteq> [] \<Longrightarrow> saveFile d (w, s) = save_to p (w, s)"
  by (simp add: saveFile_def)

lemma saveFile_dialog:
  "currentFile s = None \<or> currentFile s = Some [] \<Longrightarrow> d \<noteq> [] \<Longrightarrow>
   saveFile d (w, s) = save_to d (w, s\<lparr>currentFile := Some d\<rparr>)"
  by (auto simp: saveFile_def)








text \<open>
  The file that begins with the three bytes of U+FEFF and then holds \<open>a\<close> is outside the
  amended claim: the mark does not reach the document, and saving writes \<open>a\<close> alone.
\<close>

lemma open_then_save_drops_leading_mark:
  "files (demo_world [0x0A]) [102] = Some [0xEF, 0xBB, 0xBF, 0x61]
   \<and> files (fst (saveFile [] (openFile [102] (demo_world [0x0A], init_interface False)))) [102]
       = Some [0x61]"
  by (simp add: demo_world_def init_interface_def init_editor_def openFile_def saveFile_def
      save_to_def read_text_def write_text_def Let_def setPlainText_def toPlainText_def
      showSuccess_def newlines_out_def utf8_encode_char_def paragraph_separator_def
      to_qstring_def from_qstring_def utf16_encode_def utf16_encode_char_def is_surrogate_def
      is_continuation_def)

text \<open>
  Claim C9. When reading the chosen file raises an exception (an \<open>OSError\<close> or a decode
  error), \<open>openFile\<close> leaves the editor, with its buffer, and \<open>currentFile\<close> as they
  were; when the read succeeds the buffer is set from the text read and \<open>currentFile\<close>
  becomes the path.
\<close>

theorem openFile_updates_only_after_full_read:
  "(snd (read_text w path) = Inl e \<longrightarrow>
      editor (snd (openFile path (w, s))) = editor s
      \<and> currentFile (snd (openFile path (w, s))) = currentFile s)
   \<and> (path \<noteq> [] \<and> snd (read_text w path) = Inr content \<longrightarrow>
      editor (snd (openFile path (w, s))) = setPlainText content (editor s)
      \<and> currentFile (snd (openFile path (w, s))) = Some path)"
proof (intro conjI impI)
  assume r: "snd (read_text w path) = Inl e"
  have "openFile path (w, s) = (w, s) \<or> snd (openFile path (w, s)) = showError e s"
  proof (cases "path = []")
    case True
    then show ?thesis by (simp add: openFile_cancel)
  next
    case False
    then show ?thesis using openFile_Inl [OF False r] by simp
  qed
  then show "editor (snd (openFile path (w, s))) = editor s"
    and "currentFile (snd (openFile path (w, s))) = currentFile s"
    by (auto simp: showError_def)
next
  assume "path \<noteq> [] \<and> snd (read_text w path) = Inr content"
  then have "openFile path (w, s) =
           (w\<lparr>io_log := io_log w @ [Open path ReadMode]\<rparr>,
            showSuccess (opened_prefix @ path)
              (s\<lparr>editor := setPlainText content (editor s), currentFile := Some path\<rparr>))"
    using openFile_Inr by blast
  then show "editor (snd (openFile path (w, s))) = setPlainText content (editor s)"
    and "currentFile (snd (openFile path (w, s))) = Some path"
    by (simp_all add: showSuccess_def)
qed

lemma demo_read_bad: "snd (read_text (demo_world [0x0A]) [98]) = Inl UnicodeDecodeError"
  by (simp add: read_text_def demo_world_def Let_def)

lemma demo_read_missing: "snd (read_text (demo_world [0x0A]) [101]) = Inl (OSError 2 [101])"
  by (simp add: read_text_def demo_world_def Let_def)

lemma demo_read_denied: "snd (read_text (demo_world [0x0A]) [100]) = Inl (OSError 13 [100])"
  by (simp add: read_text_def demo_world_def Let_def)

theorem openFile_updates_only_after_full_read_witness:
  "snd (read_text (demo_world [0x0A]) [98]) = Inl UnicodeDecodeError
   \<and> editor (snd (openFile [98] (demo_world [0x0A], demo_search))) = editor demo_search
   \<and> currentFile (snd (openFile [98] (demo_world [0x0A], demo_search))) = currentFile demo_search
   \<and> snd (read_text (demo_world [0x0A]) [101]) = Inl (OSError 2 [101])
   \<and> document (editor (snd (openFile [101] (demo_world [0x0A], demo_search)))) = [97, 98, 99]"
  using openFile_updates_only_after_full_read
      [of "demo_world [0x0A]" "[98]" UnicodeDecodeError demo_search]
    openFile_updates_only_after_full_read
      [of "demo_world [0x0A]" "[101]" "OSError 2 [101]" demo_search]
    demo_read_bad demo_read_missing
  by (simp add: demo_search_def init_editor_def)

text \<open>
  Claim C7. When the file I/O of \<open>openFile\<close> or of \<open>saveFile\<close> raises an exception, the
  method catches it and returns the next state with exactly one more notification, the
  error bar for that exception, and it has called \<open>open\<close> exactly once: no retry.
  For \<open>saveFile\<close> the target is \<open>currentFile\<close>, or the dialog's path when there is none.
\<close>

theorem io_failure_is_caught_and_reported:
  "(path \<noteq> [] \<and> snd (read_text w path) = Inl e \<longrightarrow>
      infoBars (snd (openFile path (w, s))) = infoBars s @ [InfoError e]
      \<and> io_log (fst (openFile path (w, s))) = io_log w @ [Open path ReadMode])
   \<and> (target \<noteq> []
       \<and> (currentFile s = Some target
            \<or> (currentFile s = None \<or> currentFile s = Some []) \<and> dialog_path = target)
       \<and> snd (write_text w target (toPlainText (editor s))) = Inl e' \<longrightarrow>
      infoBars (snd (saveFile dialog_path (w, s))) = infoBars s @ [InfoError e']
      \<and> io_log (fst (saveFile dialog_path (w, s))) = io_log w @ [Open target WriteMode])"
proof (intro conjI impI)
  assume "path \<noteq> [] \<and> snd (read_text w path) = Inl e"
  then have "openFile path (w, s)
      = (w\<lparr>io_log := io_log w @ [Open path ReadMode]\<rparr>, showError e s)"
    using openFile_Inl by blast
  then show "infoBars (snd (openFile path (w, s))) = infoBars s @ [InfoError e]"
    and "io_log (fst (openFile path (w, s))) = io_log w @ [Open path ReadMode]"
    by (simp_all add: showError_def)
next
  assume h: "target \<noteq> []
       \<and> (currentFile s = Some target
            \<or> (currentFile s = None \<or> currentFile s = Some []) \<and> dialog_path = target)
       \<and> snd (write_text w target (toPlainText (editor s))) = Inl e'"
  then consider (cur) "currentFile s = Some target"
    | (dlg) "currentFile s = None \<or> currentFile s = Some []" "dialog_path = target"
    by blast
  then have "\<exists>s'. saveFile dialog_path (w, s) = save_to target (w, s')
      \<and> editor s' = editor s \<and> infoBars s' = infoBars s"
  proof cases
    case cur
    then show ?thesis using h saveFile_current [of s target dialog_path w] by blast
  next
    case dlg
    have "saveFile dialog_path (w, s) = save_to dialog_path (w, s\<lparr>currentFile := Some dialog_path\<rparr>)"
      using dlg h by (intro saveFile_dialog) simp_all
    then show ?thesis using dlg(2) by (intro exI [of _ "s\<lparr>currentFile := Some dialog_path\<rparr>"]) simp
  qed
  then obtain s' where s': "saveFile dialog_path (w, s) = save_to target (w, s')"
    "editor s' = editor s" "infoBars s' = infoBars s"
    by blast
  have "snd (write_text w target (toPlainText (editor s'))) = Inl e'"
    using h s'(2) by simp
  from save_to_Inl [OF this]
  have st: "save_to target (w, s')
      = (fst (write_text w target (toPlainText (editor s'))), showError e' s')" .
  show "infoBars (snd (saveFile dialog_path (w, s))) = infoBars s @ [InfoError e']"
    using s' st by (simp add: showError_def)
  show "io_log (fst (saveFile dialog_path (w, s))) = io_log w @ [Open target WriteMode]"
    using s' st by (simp add: io_log_write_text)
qed

theorem io_failure_is_caught_and_reported_witness:
  "snd (read_text (demo_world [0x0A]) [100]) = Inl (OSError 13 [100])
   \<and> infoBars (snd (openFile [100] (demo_world [0x0A], demo_search)))
       = [InfoError (OSError 13 [100])]
   \<and> io_log (fst (openFile [100] (demo_world [0x0A], demo_search))) = [Open [100] ReadMode]
   \<and> snd (write_text (demo_world [0x0A]) [100] (toPlainText (editor demo_search)))
       = Inl (OSError 13 [100])
   \<and> infoBars (snd (saveFile [100] (demo_world [0x0A], demo_search)))
       = [InfoError (OSError 13 [100])]
   \<and> io_log (fst (saveFile [100] (demo_world [0x0A], demo_search))) = [Open [100] WriteMode]"
proof -
  have w: "snd (write_text (demo_world [0x0A]) [100] (toPlainText (editor demo_search)))
       = Inl (OSError 13 [100])"
    by (simp add: write_text_def demo_world_def Let_def)
  have c: "currentFile demo_search = None" "infoBars demo_search = []"
    "io_log (demo_world [0x0A]) = []"
    by (simp_all add: demo_search_def init_interface_def demo_world_def)
  have p: "[100::nat] \<noteq> []" by simp
  show ?thesis
    using io_failure_is_caught_and_reported
      [of "[100]" "demo_world [0x0A]" "OSError 13 [100]" demo_search "[100]" "[100]"
        "OSError 13 [100]"]
      demo_read_denied w c p
    by simp
qed

end
